theory Spec2Isabelle
  imports Complex_Main
begin

section \<open>The instrumented BERT inference pipeline of \<open>app/inference_server.py\<close>\<close>

text \<open>
  A shallow embedding of \<open>BertInferenceEngine\<close> (\<open>load\<close>, \<open>tokenize\<close>, \<open>infer\<close>) and of
  the \<open>predict\<close> handler. The Prometheus metrics are an explicit state that every
  operation takes and returns; every \<open>raise\<close> of the source is an \<open>Inl\<close> result. The
  libraries the server calls (the tokenizer, the ONNX session, \<open>np.array\<close>,
  \<open>np.random.randn\<close>, the process environment, the clock) are parameters.
\<close>

subsection \<open>Python values\<close>

text \<open>
  The exceptions the modelled code can raise. All of them are subclasses of Python's
  \<open>Exception\<close>, which is what \<open>except Exception\<close> in \<open>infer\<close> catches; interpreter exit
  signals (\<open>KeyboardInterrupt\<close>, \<open>SystemExit\<close>) are outside the model. \<open>LibraryError\<close> is
  any exception raised inside a library call (tokenizer, session, array conversion).
\<close>

datatype exn =
    HTTPException nat string
  | KeyError string
  | TypeError
  | IndexError
  | ValueError
  | ValidationError
  | LibraryError string

text \<open>
  What the web framework answers when \<open>predict\<close> raises: the status of an
  \<open>HTTPException\<close>, and 500 for every other exception.
\<close>

fun status_code :: "exn \<Rightarrow> nat" where
  "status_code (HTTPException c d) = c"
| "status_code e = 500"

text \<open>A JSON value, as the request body's \<open>inputs: Optional[dict]\<close> holds them.\<close>

datatype json =
    JNull
  | JBool bool
  | JInt int
  | JFloat real
  | JStr string
  | JList "json list"
  | JDict "(string \<times> json) list"

text \<open>
  An n-dimensional array, and equally the nested list that \<open>tolist()\<close> makes of it:
  \<open>Scalar\<close> is a zero-dimensional array.
\<close>

datatype 'a nd = Scalar 'a | Arr "'a nd list"

text \<open>\<open>len(a)\<close>: a zero-dimensional array has no length.\<close>

fun len :: "'a nd \<Rightarrow> exn + nat" where
  "len (Scalar x) = Inl TypeError"
| "len (Arr xs) = Inr (length xs)"

fun entries_sum :: "int nd \<Rightarrow> int" where
  "entries_sum (Scalar x) = x"
| "entries_sum (Arr xs) = sum_list (map entries_sum xs)"

text \<open>The value of a 64-bit two's complement integer: arithmetic on \<open>int64\<close> wraps.\<close>

definition int64 :: "int \<Rightarrow> int" where
  "int64 x = (x + 2 ^ 63) mod 2 ^ 64 - 2 ^ 63"

text \<open>\<open>int(np.sum(a))\<close> on an \<open>int64\<close> array.\<close>

definition np_sum :: "int nd \<Rightarrow> int" where
  "np_sum a = int64 (entries_sum a)"

fun shape :: "'a nd \<Rightarrow> nat list" where
  "shape (Scalar x) = []"
| "shape (Arr []) = [0]"
| "shape (Arr (x # xs)) = Suc (length xs) # shape x"

text \<open>
  \<open>np.random.randn(d0, d1, ...).tolist()\<close>: an array of the given dimensions whose
  entries are drawn from a sample source, here indexed by the entry's position.
\<close>

fun randn_at :: "(nat list \<Rightarrow> real) \<Rightarrow> nat list \<Rightarrow> nat list \<Rightarrow> real nd" where
  "randn_at g pos [] = Scalar (g pos)"
| "randn_at g pos (d # ds) = Arr (map (\<lambda>i. randn_at g (pos @ [i]) ds) [0..<d])"

text \<open>A negative dimension makes \<open>randn\<close> raise \<open>ValueError\<close>.\<close>

definition randn :: "(nat list \<Rightarrow> real) \<Rightarrow> int list \<Rightarrow> exn + real nd" where
  "randn g dims =
     (if list_ex (\<lambda>d. d < 0) dims then Inl ValueError
      else Inr (randn_at g [] (map nat dims)))"

subsection \<open>Prometheus metrics\<close>

text \<open>
  One field per metric the server writes, each a function of its label values. A
  counter or gauge holds a number, a histogram the list of its observations. The
  active-requests gauge is only ever moved by \<open>inc()\<close> and \<open>dec()\<close>, so it is integral.
\<close>

record metrics =
  REQUEST_COUNT :: "string \<times> string \<Rightarrow> int"
  REQUEST_LATENCY :: "string \<Rightarrow> real list"
  TOKENS_PROCESSED :: "string \<Rightarrow> int"
  BATCH_SIZE :: "string \<Rightarrow> int list"
  MODEL_LOAD_TIME :: "string \<Rightarrow> real"
  ACTIVE_REQUESTS :: "string \<Rightarrow> int"

definition request_count_inc :: "string \<Rightarrow> string \<Rightarrow> metrics \<Rightarrow> metrics" where
  "request_count_inc status m st =
     st\<lparr>REQUEST_COUNT := (REQUEST_COUNT st)((status, m) := REQUEST_COUNT st (status, m) + 1)\<rparr>"

definition request_latency_observe :: "string \<Rightarrow> real \<Rightarrow> metrics \<Rightarrow> metrics" where
  "request_latency_observe m v st =
     st\<lparr>REQUEST_LATENCY := (REQUEST_LATENCY st)(m := REQUEST_LATENCY st m @ [v])\<rparr>"

text \<open>\<open>Counter.inc(amount)\<close> raises \<open>ValueError\<close> on a negative amount.\<close>

definition tokens_processed_inc :: "string \<Rightarrow> int \<Rightarrow> metrics \<Rightarrow> exn + metrics" where
  "tokens_processed_inc m amount st =
     (if amount < 0 then Inl ValueError
      else Inr (st\<lparr>TOKENS_PROCESSED := (TOKENS_PROCESSED st)(m := TOKENS_PROCESSED st m + amount)\<rparr>))"

definition batch_size_observe :: "string \<Rightarrow> int \<Rightarrow> metrics \<Rightarrow> metrics" where
  "batch_size_observe m v st =
     st\<lparr>BATCH_SIZE := (BATCH_SIZE st)(m := BATCH_SIZE st m @ [v])\<rparr>"


definition active_requests_inc :: "string \<Rightarrow> metrics \<Rightarrow> metrics" where
  "active_requests_inc m st =
     st\<lparr>ACTIVE_REQUESTS := (ACTIVE_REQUESTS st)(m := ACTIVE_REQUESTS st m + 1)\<rparr>"

definition active_requests_dec :: "string \<Rightarrow> metrics \<Rightarrow> metrics" where
  "active_requests_dec m st =
     st\<lparr>ACTIVE_REQUESTS := (ACTIVE_REQUESTS st)(m := ACTIVE_REQUESTS st m - 1)\<rparr>"

subsection \<open>The engine and its environment\<close>

text \<open>The three tensors a \<open>BertTokenizer\<close> call returns.\<close>

record encoding =
  enc_input_ids :: "int nd"
  enc_attention_mask :: "int nd"
  enc_token_type_ids :: "int nd"

text \<open>
  The tokenizer called on texts with \<open>max_length\<close>, and \<open>session.run\<close> called on the
  three named inputs, giving the list of output tensors. Either may raise.
\<close>

type_synonym tokenizer_fn = "string list \<Rightarrow> int \<Rightarrow> exn + encoding"
type_synonym session_fn = "int nd \<Rightarrow> int nd \<Rightarrow> int nd \<Rightarrow> exn + real nd list"

record engine =
  model_path :: string
  model_name :: string
  tokenizer :: "tokenizer_fn option"
  session :: "session_fn option"
  execution_provider :: string

text \<open>\<open>BertInferenceEngine.__init__\<close>.\<close>

definition init_engine :: "string \<Rightarrow> string \<Rightarrow> engine" where
  "init_engine path provider =
     \<lparr>model_path = path, model_name = ''bert-base-uncased'', tokenizer = None,
      session = None, execution_provider = provider\<rparr>"

subsection \<open>\<open>BertInferenceEngine.load\<close>\<close>

text \<open>
  \<open>ort.SessionOptions\<close>, with the three fields \<open>load\<close> writes. The two thread counts are C
  integers: storing a Python integer that 32 bits do not hold raises \<open>TypeError\<close>.
\<close>

record SessionOptions =
  graph_optimization_level :: string
  intra_op_num_threads :: int
  inter_op_num_threads :: int



text \<open>
  What the server reads from outside: the configured \<open>MAX_SEQUENCE_LENGTH\<close>, the process
  environment and file system, and the library calls \<open>np.array(v, dtype=np.int64)\<close>,
  \<open>int(s)\<close>, \<open>BertTokenizer.from_pretrained\<close>, \<open>ort.InferenceSession\<close> (on a path, the
  session options and the provider names) and the sample source of \<open>np.random.randn\<close>
  (first argument: which of the two calls in \<open>infer\<close>).
\<close>

record env =
  MAX_SEQUENCE_LENGTH :: int
  np_array :: "json \<Rightarrow> exn + int nd"
  randn_source :: "nat \<Rightarrow> nat list \<Rightarrow> real"
  getenv :: "string \<Rightarrow> string option"
  path_exists :: "string \<Rightarrow> bool"
  py_int :: "string \<Rightarrow> exn + int"
  from_pretrained :: "string \<Rightarrow> exn + tokenizer_fn"
  InferenceSession :: "string \<Rightarrow> SessionOptions \<Rightarrow> string list \<Rightarrow> exn + session_fn"





subsection \<open>\<open>BertInferenceEngine.tokenize\<close>\<close>

text \<open>
  The tokenized batch is a dictionary from the three tensor names to arrays. Calling
  the tokenizer of an engine that was never loaded (\<open>None\<close>) is a \<open>TypeError\<close>.
\<close>

type_synonym batch = "string \<rightharpoonup> int nd"

definition tokenize :: "engine \<Rightarrow> string list \<Rightarrow> int \<Rightarrow> exn + batch" where
  "tokenize eng txts max_length =
     (case tokenizer eng of
        None \<Rightarrow> Inl TypeError
      | Some tok \<Rightarrow>
          (case tok txts max_length of
             Inl e \<Rightarrow> Inl e
           | Inr encoded \<Rightarrow>
               Inr [''input_ids'' \<mapsto> enc_input_ids encoded,
                    ''attention_mask'' \<mapsto> enc_attention_mask encoded,
                    ''token_type_ids'' \<mapsto> enc_token_type_ids encoded]))"

subsection \<open>\<open>BertInferenceEngine.infer\<close>\<close>

text \<open>\<open>d[k]\<close> on a dictionary.\<close>

definition getitem :: "(string \<rightharpoonup> 'a) \<Rightarrow> string \<Rightarrow> exn + 'a" where
  "getitem d k = (case d k of None \<Rightarrow> Inl (KeyError k) | Some v \<Rightarrow> Inr v)"

text \<open>The dictionary \<open>infer\<close> returns.\<close>

record infer_result =
  last_hidden_state :: "real nd"
  pooler_output :: "real nd option"
  latency_ms :: real
  batch_size :: int
  tokens_processed :: int

text \<open>
  The \<open>if self.session: ... else: ...\<close> statement: the pair of \<open>last_hidden_state\<close> and
  \<open>pooler_output\<close>. The loaded branch reads the three tensors from \<open>inputs\<close> again and
  runs the session; the mock branch sleeps and fills two arrays of dimensions
  \<open>(batch_size, MAX_SEQUENCE_LENGTH, 768)\<close> and \<open>(batch_size, 768)\<close>.
\<close>

definition run_session :: "env \<Rightarrow> engine \<Rightarrow> batch \<Rightarrow> nat \<Rightarrow> exn + real nd \<times> real nd option" where
  "run_session ev eng inps bs =
     (case session eng of
        Some sess \<Rightarrow>
          (case getitem inps ''input_ids'' of
             Inl e \<Rightarrow> Inl e
           | Inr ids \<Rightarrow>
               (case getitem inps ''attention_mask'' of
                  Inl e \<Rightarrow> Inl e
                | Inr amask \<Rightarrow>
                    (case getitem inps ''token_type_ids'' of
                       Inl e \<Rightarrow> Inl e
                     | Inr tts \<Rightarrow>
                         (case sess ids amask tts of
                            Inl e \<Rightarrow> Inl e
                          | Inr outputs \<Rightarrow>
                              (case outputs of
                                 [] \<Rightarrow> Inl IndexError
                               | o0 # rest \<Rightarrow>
                                   Inr (o0, if length outputs > 1 then Some (outputs ! 1) else None))))))
      | None \<Rightarrow>
          (case randn (randn_source ev 0) [int bs, MAX_SEQUENCE_LENGTH ev, 768] of
             Inl e \<Rightarrow> Inl e
           | Inr hidden \<Rightarrow>
               (case randn (randn_source ev 1) [int bs, 768] of
                  Inl e \<Rightarrow> Inl e
                | Inr pooled \<Rightarrow> Inr (hidden, Some pooled))))"

text \<open>
  The body of the \<open>try\<close> block, run on the metrics as they are after the gauge was
  incremented. \<open>t0\<close> and \<open>t1\<close> are the readings of \<open>time.time()\<close> before and after the
  execution. A raise leaves the metrics as they are at that point.
\<close>

definition infer_try :: "env \<Rightarrow> engine \<Rightarrow> real \<Rightarrow> real \<Rightarrow> metrics \<Rightarrow> batch \<Rightarrow> (exn + infer_result) \<times> metrics" where
  "infer_try ev eng t0 t1 st inps =
     (case getitem inps ''input_ids'' of
        Inl e \<Rightarrow> (Inl e, st)
      | Inr ids \<Rightarrow>
          (case len ids of
             Inl e \<Rightarrow> (Inl e, st)
           | Inr bs \<Rightarrow>
               (case getitem inps ''attention_mask'' of
                  Inl e \<Rightarrow> (Inl e, st)
                | Inr amask \<Rightarrow>
                    let tokens = np_sum amask
                    in (case run_session ev eng inps bs of
                          Inl e \<Rightarrow> (Inl e, st)
                        | Inr (hidden, pooled) \<Rightarrow>
                            let latency = t1 - t0;
                                st1 = request_count_inc ''success'' (model_name eng) st;
                                st2 = request_latency_observe (model_name eng) latency st1
                            in (case tokens_processed_inc (model_name eng) tokens st2 of
                                  Inl e \<Rightarrow> (Inl e, st2)
                                | Inr st3 \<Rightarrow>
                                    let st4 = batch_size_observe (model_name eng) (int bs) st3
                                    in (Inr \<lparr>last_hidden_state = hidden, pooler_output = pooled,
                                             latency_ms = latency * 1000, batch_size = int bs,
                                             tokens_processed = tokens\<rparr>, st4))))))"

text \<open>
  \<open>infer\<close>, with the metrics as they are after each of its steps, in order: after the
  increment of the gauge at entry (the state in which the \<open>try\<close> block starts), after
  the \<open>try\<close> block, after the \<open>except Exception\<close> clause when it runs (it counts the
  error and raises the exception again), and after the decrement in \<open>finally\<close>.
\<close>

definition infer_trace :: "env \<Rightarrow> engine \<Rightarrow> real \<Rightarrow> real \<Rightarrow> metrics \<Rightarrow> batch \<Rightarrow> (exn + infer_result) \<times> metrics list" where
  "infer_trace ev eng t0 t1 st inps =
     (let st0 = active_requests_inc (model_name eng) st
      in (case infer_try ev eng t0 t1 st0 inps of
            (Inr result, st1) \<Rightarrow>
              (Inr result, [st0, st1, active_requests_dec (model_name eng) st1])
          | (Inl e, st1) \<Rightarrow>
              let st2 = request_count_inc ''error'' (model_name eng) st1
              in (Inl e, [st0, st1, st2, active_requests_dec (model_name eng) st2])))"

text \<open>What a call of \<open>infer\<close> returns or raises, and the metrics it leaves.\<close>

definition infer :: "env \<Rightarrow> engine \<Rightarrow> real \<Rightarrow> real \<Rightarrow> metrics \<Rightarrow> batch \<Rightarrow> (exn + infer_result) \<times> metrics" where
  "infer ev eng t0 t1 st inps =
     (case infer_trace ev eng t0 t1 st inps of (outcome, sts) \<Rightarrow> (outcome, last sts))"

subsection \<open>The \<open>predict\<close> handler\<close>

text \<open>
  The request body after validation. A dictionary parsed from JSON is the list of its
  items, with distinct keys; it is true in a condition when it has an item. The response
  fields carry the prefix \<open>resp\<close>, as \<open>infer\<close>'s result already has the plain names.
\<close>

record InferenceRequest =
  "text" :: "string option"
  texts :: "string list option"
  inputs :: "(string \<times> json) list option"
  include_embeddings :: bool

record InferenceResponse =
  resp_embeddings :: "real nd option"
  resp_pooler_output :: "real nd option"
  resp_latency_ms :: real
  resp_batch_size :: int
  resp_tokens_processed :: int

text \<open>Python's truth value of an optional string, list or dictionary.\<close>

fun truthy :: "'a list option \<Rightarrow> bool" where
  "truthy None = False"
| "truthy (Some xs) = (xs \<noteq> [])"

text \<open>\<open>np.array(d[k], dtype=np.int64)\<close>: the key is looked up first, then converted.\<close>

definition array_of_key :: "env \<Rightarrow> (string \<times> json) list \<Rightarrow> string \<Rightarrow> exn + int nd" where
  "array_of_key ev d k =
     (case getitem (map_of d) k of Inl e \<Rightarrow> Inl e | Inr v \<Rightarrow> np_array ev v)"

text \<open>
  The \<open>if request.inputs: ... elif request.texts: ... elif request.text: ... else: ...\<close>
  statement of \<open>predict\<close>, which makes the tokenized batch or raises.
\<close>

definition predict_inputs :: "env \<Rightarrow> engine \<Rightarrow> InferenceRequest \<Rightarrow> exn + batch" where
  "predict_inputs ev eng request =
     (if truthy (inputs request) then
        (case array_of_key ev (the (inputs request)) ''input_ids'' of
           Inl e \<Rightarrow> Inl e
         | Inr a \<Rightarrow>
             (case array_of_key ev (the (inputs request)) ''attention_mask'' of
                Inl e \<Rightarrow> Inl e
              | Inr b \<Rightarrow>
                  (case array_of_key ev (the (inputs request)) ''token_type_ids'' of
                     Inl e \<Rightarrow> Inl e
                   | Inr c \<Rightarrow>
                       Inr [''input_ids'' \<mapsto> a, ''attention_mask'' \<mapsto> b,
                            ''token_type_ids'' \<mapsto> c])))
      else if truthy (texts request) then
        tokenize eng (the (texts request)) (MAX_SEQUENCE_LENGTH ev)
      else if truthy (text request) then
        tokenize eng [the (text request)] (MAX_SEQUENCE_LENGTH ev)
      else Inl (HTTPException 400 ''No input provided''))"

text \<open>
  Building the \<open>InferenceResponse\<close>: its two \<open>Optional[list]\<close> fields are validated, and a
  value that is not a list (the \<open>tolist()\<close> of a zero-dimensional output) is refused.
\<close>

fun optional_list :: "'a nd option \<Rightarrow> bool" where
  "optional_list None = True"
| "optional_list (Some (Arr xs)) = True"
| "optional_list (Some (Scalar x)) = False"

definition make_response :: "InferenceRequest \<Rightarrow> infer_result \<Rightarrow> exn + InferenceResponse" where
  "make_response request result =
     (let emb = (if include_embeddings request then Some (last_hidden_state result) else None)
      in if optional_list emb \<and> optional_list (pooler_output result)
         then Inr \<lparr>resp_embeddings = emb,
                   resp_pooler_output = pooler_output result,
                   resp_latency_ms = latency_ms result,
                   resp_batch_size = batch_size result,
                   resp_tokens_processed = tokens_processed result\<rparr>
         else Inl ValidationError)"

text \<open>
  \<open>predict\<close>, on the global \<open>engine\<close> (\<open>None\<close> outside the application's lifespan), the
  two clock readings of the \<open>infer\<close> call and the metrics.
\<close>

definition predict :: "env \<Rightarrow> engine option \<Rightarrow> real \<Rightarrow> real \<Rightarrow> metrics \<Rightarrow> InferenceRequest \<Rightarrow> (exn + InferenceResponse) \<times> metrics" where
  "predict ev engine_opt t0 t1 st request =
     (case engine_opt of
        None \<Rightarrow> (Inl (HTTPException 503 ''Model not loaded''), st)
      | Some eng \<Rightarrow>
          (case predict_inputs ev eng request of
             Inl e \<Rightarrow> (Inl e, st)
           | Inr inps \<Rightarrow>
               (case infer ev eng t0 t1 st inps of
                  (Inl e, st1) \<Rightarrow> (Inl e, st1)
                | (Inr result, st1) \<Rightarrow> (make_response request result, st1))))"

subsection \<open>Sample values\<close>

text \<open>
  Concrete metrics, libraries, engines and requests on which the theorems below are
  evaluated. \<open>metrics0\<close> is the state of a fresh process.
\<close>

definition metrics0 :: metrics where
  "metrics0 =
     \<lparr>REQUEST_COUNT = (\<lambda>l. 0), REQUEST_LATENCY = (\<lambda>l. []), TOKENS_PROCESSED = (\<lambda>l. 0),
      BATCH_SIZE = (\<lambda>l. []), MODEL_LOAD_TIME = (\<lambda>l. 0), ACTIVE_REQUESTS = (\<lambda>l. 0)\<rparr>"

text \<open>A tokenizer that pads every text to \<open>max_length\<close>: two special tokens and one per character.\<close>

definition sample_row :: "int \<Rightarrow> nat \<Rightarrow> nat \<Rightarrow> int nd" where
  "sample_row v k n = Arr (map Scalar (replicate (min k n) v @ replicate (n - k) 0))"

definition sample_tokenizer :: tokenizer_fn where
  "sample_tokenizer txts n =
     Inr \<lparr>enc_input_ids = Arr (map (\<lambda>t. sample_row 100 (length t + 2) (nat n)) txts),
          enc_attention_mask = Arr (map (\<lambda>t. sample_row 1 (length t + 2) (nat n)) txts),
          enc_token_type_ids = Arr (map (\<lambda>t. sample_row 0 (length t + 2) (nat n)) txts)\<rparr>"

text \<open>
  A session with the output dimensions of the exported BERT model: token embeddings
  \<open>[b, s, 768]\<close> and a pooled output \<open>[b, 768]\<close> for input ids \<open>[b, s]\<close>.
\<close>

definition sample_session :: session_fn where
  "sample_session ids amask tts =
     (case shape ids of
        [b, s] \<Rightarrow> Inr [randn_at (\<lambda>p. 0) [] [b, s, 768], randn_at (\<lambda>p. 0) [] [b, 768]]
      | _ \<Rightarrow> Inl (LibraryError ''invalid rank''))"

definition failing_session :: session_fn where
  "failing_session ids amask tts = Inl (LibraryError ''run failed'')"

text \<open>An array conversion that takes nested lists of integers of one shape and refuses all else.\<close>

fun sample_np_array :: "json \<Rightarrow> exn + int nd" where
  "sample_np_array (JInt n) = Inr (Scalar n)"
| "sample_np_array (JList xs) =
     (let rs = map sample_np_array xs
      in if list_all (\<lambda>r. \<not> isl r) rs \<and> list_all (\<lambda>r. shape (projr r) = shape (projr (hd rs))) rs
         then Inr (Arr (map projr rs)) else Inl ValueError)"
| "sample_np_array v = Inl TypeError"

definition sample_int :: "string \<Rightarrow> exn + int" where
  "sample_int s =
     (if s = ''4'' then Inr 4 else if s = ''2'' then Inr 2
      else if s = ''2147483648'' then Inr 2147483648 else Inl ValueError)"

definition sample_env :: env where
  "sample_env =
     \<lparr>MAX_SEQUENCE_LENGTH = 512, np_array = sample_np_array, randn_source = (\<lambda>c p. 0),
      getenv = (\<lambda>k. None), path_exists = (\<lambda>p. False), py_int = sample_int,
      from_pretrained = (\<lambda>n. Inr sample_tokenizer),
      InferenceSession = (\<lambda>p opts ps. Inr sample_session)\<rparr>"

definition mock_engine :: engine where
  "mock_engine =
     (init_engine ''/models/bert-base-uncased/model.onnx'' ''CUDAExecutionProvider'')
       \<lparr>tokenizer := Some sample_tokenizer\<rparr>"

definition loaded_engine :: engine where
  "loaded_engine = mock_engine\<lparr>session := Some sample_session\<rparr>"

definition failing_engine :: engine where
  "failing_engine = mock_engine\<lparr>session := Some failing_session\<rparr>"

text \<open>One row of two tokens, as a tokenized batch and as the JSON of a request.\<close>

definition small_batch :: batch where
  "small_batch =
     [''input_ids'' \<mapsto> Arr [Arr [Scalar 101, Scalar 102]],
      ''attention_mask'' \<mapsto> Arr [Arr [Scalar 1, Scalar 1]],
      ''token_type_ids'' \<mapsto> Arr [Arr [Scalar 0, Scalar 0]]]"

definition small_inputs :: "(string \<times> json) list" where
  "small_inputs =
     [(''input_ids'', JList [JList [JInt 101, JInt 102]]),
      (''attention_mask'', JList [JList [JInt 1, JInt 1]]),
      (''token_type_ids'', JList [JList [JInt 0, JInt 0]])]"




subsection \<open>Auxiliary notions\<close>

text \<open>An integer that an \<open>int64\<close> holds without wrapping.\<close>

definition fits_int64 :: "int \<Rightarrow> bool" where
  "fits_int64 x = (- (2 ^ 63) \<le> x \<and> x < 2 ^ 63)"

section \<open>Properties\<close>

subsection \<open>What \<open>infer\<close> does to the metrics\<close>

lemma int64_id: "fits_int64 x \<Longrightarrow> int64 x = x"
  by (simp add: fits_int64_def int64_def)

lemmas metric_updates =
  request_count_inc_def request_latency_observe_def tokens_processed_inc_def
  batch_size_observe_def active_requests_inc_def active_requests_dec_def

text \<open>A body that returns has read both tensors, run the model and recorded all four samples.\<close>

lemma infer_try_returns:
  assumes "infer_try ev eng t0 t1 st inps = (Inr res, st')"
  obtains ids bs amask hidden pooled where
    "inps ''input_ids'' = Some ids" "len ids = Inr bs" "inps ''attention_mask'' = Some amask"
    "run_session ev eng inps bs = Inr (hidden, pooled)" "0 \<le> np_sum amask"
    "res = \<lparr>last_hidden_state = hidden, pooler_output = pooled, latency_ms = (t1 - t0) * 1000,
            batch_size = int bs, tokens_processed = np_sum amask\<rparr>"
    "TOKENS_PROCESSED st' = (TOKENS_PROCESSED st)(model_name eng := TOKENS_PROCESSED st (model_name eng) + np_sum amask)"
    "BATCH_SIZE st' = (BATCH_SIZE st)(model_name eng := BATCH_SIZE st (model_name eng) @ [int bs])"
    "REQUEST_COUNT st' = (REQUEST_COUNT st)((''success'', model_name eng) := REQUEST_COUNT st (''success'', model_name eng) + 1)"
    "REQUEST_LATENCY st' = (REQUEST_LATENCY st)(model_name eng := REQUEST_LATENCY st (model_name eng) @ [t1 - t0])"
  using assms
  by (auto simp: infer_try_def getitem_def Let_def metric_updates
      split: sum.splits option.splits prod.splits if_splits)


text \<open>\<open>infer\<close> in one equation: increment, body, error count on a raise, decrement.\<close>

lemma infer_eq:
  "infer ev eng t0 t1 st inps =
     (let st0 = active_requests_inc (model_name eng) st
      in (case infer_try ev eng t0 t1 st0 inps of
            (Inr result, st1) \<Rightarrow> (Inr result, active_requests_dec (model_name eng) st1)
          | (Inl e, st1) \<Rightarrow>
              let st2 = request_count_inc ''error'' (model_name eng) st1
              in (Inl e, active_requests_dec (model_name eng) st2)))"
  by (simp add: infer_def infer_trace_def Let_def split: prod.splits sum.splits)

lemma infer_try_active:
  "ACTIVE_REQUESTS (snd (infer_try ev eng t0 t1 st inps)) = ACTIVE_REQUESTS st"
  by (simp add: infer_try_def Let_def request_count_inc_def request_latency_observe_def
      tokens_processed_inc_def batch_size_observe_def split: sum.splits prod.splits)

lemma infer_returns:
  assumes "infer ev eng t0 t1 st inps = (Inr res, st')"
  obtains st1 where
    "infer_try ev eng t0 t1 (active_requests_inc (model_name eng) st) inps = (Inr res, st1)"
    "st' = active_requests_dec (model_name eng) st1"
  using assms
  by (auto simp: infer_eq Let_def split: sum.splits prod.splits)


lemma gauge_inc_dec:
  "ACTIVE_REQUESTS st1 = ACTIVE_REQUESTS (active_requests_inc m st) \<Longrightarrow>
   ACTIVE_REQUESTS (active_requests_dec m st1) = ACTIVE_REQUESTS st"
  by (simp add: active_requests_inc_def active_requests_dec_def)

subsection \<open>The sample calls, evaluated\<close>

lemma small_batch_keys:
  "small_batch ''input_ids'' = Some (Arr [Arr [Scalar 101, Scalar 102]])"
  "small_batch ''attention_mask'' = Some (Arr [Arr [Scalar 1, Scalar 1]])"
  "small_batch ''token_type_ids'' = Some (Arr [Arr [Scalar 0, Scalar 0]])"
  by (simp_all add: small_batch_def)

lemma np_sum_small: "np_sum (Arr [Arr [Scalar 1, Scalar 1]]) = 2"
  by (simp add: np_sum_def int64_def)

lemma run_session_mock:
  "run_session sample_env mock_engine inps bs =
     Inr (randn_at (\<lambda>p. 0) [] [bs, 512, 768], Some (randn_at (\<lambda>p. 0) [] [bs, 768]))"
  by (simp add: run_session_def mock_engine_def init_engine_def sample_env_def randn_def del: randn_at.simps)

lemma run_session_failing:
  "run_session sample_env failing_engine small_batch bs = Inl (LibraryError ''run failed'')"
  by (simp add: run_session_def failing_engine_def mock_engine_def init_engine_def getitem_def
      small_batch_keys failing_session_def)

lemma engine_names:
  "model_name mock_engine = ''bert-base-uncased''"
  "model_name failing_engine = ''bert-base-uncased''"
  "model_name loaded_engine = ''bert-base-uncased''"
  by (simp_all add: mock_engine_def failing_engine_def loaded_engine_def init_engine_def)

lemma infer_try_mock_small:
  "fst (infer_try sample_env mock_engine 0 1 st small_batch) =
     Inr \<lparr>last_hidden_state = randn_at (\<lambda>p. 0) [] [1, 512, 768],
          pooler_output = Some (randn_at (\<lambda>p. 0) [] [1, 768]),
          latency_ms = 1000, batch_size = 1, tokens_processed = 2\<rparr>"
  by (simp add: infer_try_def getitem_def small_batch_keys np_sum_small run_session_mock
      tokens_processed_inc_def Let_def del: randn_at.simps)

lemma infer_mock_small:
  "fst (infer sample_env mock_engine 0 1 st small_batch) =
     Inr \<lparr>last_hidden_state = randn_at (\<lambda>p. 0) [] [1, 512, 768],
          pooler_output = Some (randn_at (\<lambda>p. 0) [] [1, 768]),
          latency_ms = 1000, batch_size = 1, tokens_processed = 2\<rparr>"
  using infer_try_mock_small [of "active_requests_inc (model_name mock_engine) st"]
  by (cases "infer_try sample_env mock_engine 0 1 (active_requests_inc (model_name mock_engine) st) small_batch")
     (simp add: infer_eq Let_def)

lemma infer_try_failing_small:
  "infer_try sample_env failing_engine 0 1 st small_batch = (Inl (LibraryError ''run failed''), st)"
  by (simp add: infer_try_def getitem_def small_batch_keys run_session_failing Let_def)

lemma infer_failing_small:
  "infer sample_env failing_engine 0 1 st small_batch =
     (Inl (LibraryError ''run failed''),
      active_requests_dec ''bert-base-uncased''
        (request_count_inc ''error'' ''bert-base-uncased''
          (active_requests_inc ''bert-base-uncased'' st)))"
  by (simp add: infer_eq infer_try_failing_small Let_def engine_names)

lemma predict_inputs_small:
  "predict_inputs sample_env eng
     \<lparr>text = t, texts = ts, inputs = Some small_inputs, include_embeddings = ie\<rparr> = Inr small_batch"
  by (simp add: predict_inputs_def array_of_key_def getitem_def small_inputs_def sample_env_def
      small_batch_def Let_def)

lemma optional_list_randn_at: "optional_list (Some (randn_at g pos (d # ds)))"
  by simp

lemma predict_mock_small:
  "fst (predict sample_env (Some mock_engine) 0 1 st
     \<lparr>text = t, texts = ts, inputs = Some small_inputs, include_embeddings = False\<rparr>) =
     Inr \<lparr>resp_embeddings = None,
          resp_pooler_output = Some (randn_at (\<lambda>p. 0) [] [1, 768]),
          resp_latency_ms = 1000, resp_batch_size = 1, resp_tokens_processed = 2\<rparr>"
  using infer_mock_small [of st]
  by (cases "infer sample_env mock_engine 0 1 st small_batch")
     (simp add: predict_def predict_inputs_small make_response_def optional_list_randn_at
       del: randn_at.simps)


lemma run_session_loaded:
  "run_session ev loaded_engine small_batch bs =
     Inr (randn_at (\<lambda>p. 0) [] [1, 2, 768], Some (randn_at (\<lambda>p. 0) [] [1, 768]))"
  by (simp add: run_session_def loaded_engine_def mock_engine_def init_engine_def getitem_def
      small_batch_keys sample_session_def numeral_2_eq_2 del: randn_at.simps)

lemma infer_try_loaded_small:
  "fst (infer_try ev loaded_engine 0 1 st small_batch) =
     Inr \<lparr>last_hidden_state = randn_at (\<lambda>p. 0) [] [1, 2, 768],
          pooler_output = Some (randn_at (\<lambda>p. 0) [] [1, 768]),
          latency_ms = 1000, batch_size = 1, tokens_processed = 2\<rparr>"
  by (simp add: infer_try_def getitem_def small_batch_keys np_sum_small run_session_loaded
      tokens_processed_inc_def Let_def del: randn_at.simps)

lemma infer_loaded_small:
  "fst (infer ev loaded_engine 0 1 st small_batch) =
     Inr \<lparr>last_hidden_state = randn_at (\<lambda>p. 0) [] [1, 2, 768],
          pooler_output = Some (randn_at (\<lambda>p. 0) [] [1, 768]),
          latency_ms = 1000, batch_size = 1, tokens_processed = 2\<rparr>"
  using infer_try_loaded_small [of ev "active_requests_inc (model_name loaded_engine) st"]
  by (cases "infer_try ev loaded_engine 0 1 (active_requests_inc (model_name loaded_engine) st) small_batch")
     (simp add: infer_eq Let_def)

subsection \<open>The active-requests gauge\<close>

text \<open>
  C1. \<open>infer\<close> starts by incrementing the model's active-requests gauge, and changes
  nothing else before the \<open>try\<close> block starts. The gauge stays one above its value before
  the call through the \<open>try\<close> block and through the \<open>except\<close> clause, and the last step,
  on the loaded, the mock and the raising path alike, is the decrement, which leaves
  the gauge of every model at its value before the call. An increment that a decrement
  undoes leaves no mark on the metrics \<open>infer\<close> ends with, so the steps are read off
  \<open>infer_trace\<close>, of which \<open>infer\<close> is the outcome and the last state.
\<close>

theorem infer_active_requests_restored:
  "fst (infer ev eng t0 t1 st inps) = fst (infer_trace ev eng t0 t1 st inps)
   \<and> snd (infer ev eng t0 t1 st inps) = last (snd (infer_trace ev eng t0 t1 st inps))
   \<and> hd (snd (infer_trace ev eng t0 t1 st inps)) = active_requests_inc (model_name eng) st
   \<and> map (\<lambda>s. ACTIVE_REQUESTS s (model_name eng)) (snd (infer_trace ev eng t0 t1 st inps))
       = (if isl (fst (infer ev eng t0 t1 st inps))
          then [ACTIVE_REQUESTS st (model_name eng) + 1, ACTIVE_REQUESTS st (model_name eng) + 1,
                ACTIVE_REQUESTS st (model_name eng) + 1, ACTIVE_REQUESTS st (model_name eng)]
          else [ACTIVE_REQUESTS st (model_name eng) + 1, ACTIVE_REQUESTS st (model_name eng) + 1,
                ACTIVE_REQUESTS st (model_name eng)])
   \<and> snd (infer ev eng t0 t1 st inps)
       = active_requests_dec (model_name eng) (last (butlast (snd (infer_trace ev eng t0 t1 st inps))))
   \<and> ACTIVE_REQUESTS (snd (infer ev eng t0 t1 st inps)) = ACTIVE_REQUESTS st"
proof -
  obtain r st1 where
    body: "infer_try ev eng t0 t1 (active_requests_inc (model_name eng) st) inps = (r, st1)"
    by (cases "infer_try ev eng t0 t1 (active_requests_inc (model_name eng) st) inps")
  have held: "ACTIVE_REQUESTS st1 = ACTIVE_REQUESTS (active_requests_inc (model_name eng) st)"
    using infer_try_active [of ev eng t0 t1 "active_requests_inc (model_name eng) st" inps] body
    by simp
  have held_err: "ACTIVE_REQUESTS (request_count_inc ''error'' (model_name eng) st1)
      = ACTIVE_REQUESTS (active_requests_inc (model_name eng) st)"
    using held by (simp add: request_count_inc_def)
  have entered: "ACTIVE_REQUESTS (active_requests_inc (model_name eng) st) (model_name eng)
      = ACTIVE_REQUESTS st (model_name eng) + 1"
    by (simp add: active_requests_inc_def)
  have left: "ACTIVE_REQUESTS (active_requests_dec (model_name eng) s) (model_name eng)
      = ACTIVE_REQUESTS s (model_name eng) - 1" for s
    by (simp add: active_requests_dec_def)
  show ?thesis
  proof (cases r)
    case (Inl e)
    with body have tr: "infer_trace ev eng t0 t1 st inps =
        (Inl e, [active_requests_inc (model_name eng) st, st1,
                 request_count_inc ''error'' (model_name eng) st1,
                 active_requests_dec (model_name eng)
                   (request_count_inc ''error'' (model_name eng) st1)])"
      by (simp add: infer_trace_def Let_def)
    show ?thesis
      using gauge_inc_dec [OF held_err] held held_err entered
      by (simp add: infer_def tr left)
  next
    case (Inr res)
    with body have tr: "infer_trace ev eng t0 t1 st inps =
        (Inr res, [active_requests_inc (model_name eng) st, st1,
                   active_requests_dec (model_name eng) st1])"
      by (simp add: infer_trace_def Let_def)
    show ?thesis
      using gauge_inc_dec [OF held] held entered
      by (simp add: infer_def tr left)
  qed
qed

theorem infer_active_requests_restored_witness:
  "(\<exists>r. fst (infer sample_env loaded_engine 0 1 metrics0 small_batch) = Inr r)
   \<and> map (\<lambda>s. ACTIVE_REQUESTS s ''bert-base-uncased'')
        (snd (infer_trace sample_env loaded_engine 0 1 metrics0 small_batch)) = [1, 1, 0]
   \<and> ACTIVE_REQUESTS (snd (infer sample_env loaded_engine 0 1 metrics0 small_batch)) = (\<lambda>l. 0)
   \<and> (\<exists>r. fst (infer sample_env mock_engine 0 1 metrics0 small_batch) = Inr r)
   \<and> map (\<lambda>s. ACTIVE_REQUESTS s ''bert-base-uncased'')
        (snd (infer_trace sample_env mock_engine 0 1 metrics0 small_batch)) = [1, 1, 0]
   \<and> ACTIVE_REQUESTS (snd (infer sample_env mock_engine 0 1 metrics0 small_batch)) = (\<lambda>l. 0)
   \<and> (\<exists>e. fst (infer sample_env failing_engine 0 1 metrics0 small_batch) = Inl e)
   \<and> map (\<lambda>s. ACTIVE_REQUESTS s ''bert-base-uncased'')
        (snd (infer_trace sample_env failing_engine 0 1 metrics0 small_batch)) = [1, 1, 1, 0]
   \<and> ACTIVE_REQUESTS (snd (infer sample_env failing_engine 0 1 metrics0 small_batch)) = (\<lambda>l. 0)"
proof -
  have zero: "ACTIVE_REQUESTS metrics0 = (\<lambda>l. 0)"
    by (simp add: metrics0_def)
  have ok_loaded: "\<exists>r. fst (infer sample_env loaded_engine 0 1 metrics0 small_batch) = Inr r"
    by (simp add: infer_loaded_small del: randn_at.simps)
  have ok_mock: "\<exists>r. fst (infer sample_env mock_engine 0 1 metrics0 small_batch) = Inr r"
    by (simp add: infer_mock_small del: randn_at.simps)
  have raised: "\<exists>e. fst (infer sample_env failing_engine 0 1 metrics0 small_batch) = Inl e"
    by (simp add: infer_failing_small)
  note loaded = infer_active_requests_restored [of sample_env loaded_engine 0 1 metrics0 small_batch]
  note mock = infer_active_requests_restored [of sample_env mock_engine 0 1 metrics0 small_batch]
  note failing = infer_active_requests_restored [of sample_env failing_engine 0 1 metrics0 small_batch]
  from loaded [THEN conjunct2, THEN conjunct2, THEN conjunct2, THEN conjunct1] ok_loaded
  have a: "map (\<lambda>s. ACTIVE_REQUESTS s ''bert-base-uncased'')
        (snd (infer_trace sample_env loaded_engine 0 1 metrics0 small_batch)) = [1, 1, 0]"
    by (auto simp: engine_names zero simp del: randn_at.simps)
  from mock [THEN conjunct2, THEN conjunct2, THEN conjunct2, THEN conjunct1] ok_mock
  have b: "map (\<lambda>s. ACTIVE_REQUESTS s ''bert-base-uncased'')
        (snd (infer_trace sample_env mock_engine 0 1 metrics0 small_batch)) = [1, 1, 0]"
    by (auto simp: engine_names zero simp del: randn_at.simps)
  from failing [THEN conjunct2, THEN conjunct2, THEN conjunct2, THEN conjunct1] raised
  have c: "map (\<lambda>s. ACTIVE_REQUESTS s ''bert-base-uncased'')
        (snd (infer_trace sample_env failing_engine 0 1 metrics0 small_batch)) = [1, 1, 1, 0]"
    by (auto simp: engine_names zero)
  from loaded mock failing have d:
    "ACTIVE_REQUESTS (snd (infer sample_env loaded_engine 0 1 metrics0 small_batch)) = (\<lambda>l. 0)"
    "ACTIVE_REQUESTS (snd (infer sample_env mock_engine 0 1 metrics0 small_batch)) = (\<lambda>l. 0)"
    "ACTIVE_REQUESTS (snd (infer sample_env failing_engine 0 1 metrics0 small_batch)) = (\<lambda>l. 0)"
    unfolding zero by blast+
  from ok_loaded ok_mock raised a b c d show ?thesis by blast
qed

subsection \<open>The reported token count and batch size\<close>

text \<open>
  C2. For a batch whose \<open>input_ids\<close> is an array of rows and whose attention-mask sum
  an \<open>int64\<close> holds (as it does for masks of zeros and ones), a call of \<open>infer\<close> that
  returns reports \<open>batch_size\<close> as the number of rows and \<open>tokens_processed\<close> as the sum
  of all mask entries, and the response of a \<open>predict\<close> call that was given this batch
  carries the same two values.
\<close>

theorem infer_reports_tokens_and_batch_size:
  assumes "inps ''input_ids'' = Some (Arr rows)"
    and "inps ''attention_mask'' = Some amask"
    and "fits_int64 (entries_sum amask)"
  shows "(infer ev eng t0 t1 st inps = (Inr res, st') \<longrightarrow>
            batch_size res = int (length rows) \<and> tokens_processed res = entries_sum amask)
       \<and> (predict_inputs ev eng request = Inr inps
            \<and> predict ev (Some eng) t0 t1 st request = (Inr resp, st'') \<longrightarrow>
            resp_batch_size resp = int (length rows) \<and> resp_tokens_processed resp = entries_sum amask)"
proof -
  have sum: "np_sum amask = entries_sum amask"
    using assms(3) by (simp add: np_sum_def int64_id)
  have executor: "batch_size r = int (length rows) \<and> tokens_processed r = entries_sum amask"
    if "infer ev eng t0 t1 st inps = (Inr r, s)" for r s
  proof -
    from that obtain s1 where
      "infer_try ev eng t0 t1 (active_requests_inc (model_name eng) st) inps = (Inr r, s1)"
      by (rule infer_returns)
    then show ?thesis
      using assms(1,2) sum by (elim infer_try_returns) auto
  qed
  have handler: "resp_batch_size resp = int (length rows) \<and> resp_tokens_processed resp = entries_sum amask"
    if n: "predict_inputs ev eng request = Inr inps"
      and p: "predict ev (Some eng) t0 t1 st request = (Inr resp, st'')"
  proof -
    from p n obtain r where i: "infer ev eng t0 t1 st inps = (Inr r, st'')"
      and m: "make_response request r = Inr resp"
      by (auto simp: predict_def split: sum.splits prod.splits)
    from m have "resp_batch_size resp = batch_size r" "resp_tokens_processed resp = tokens_processed r"
      by (auto simp: make_response_def Let_def split: if_splits)
    with executor [OF i] show ?thesis by simp
  qed
  from executor handler show ?thesis by blast
qed

theorem infer_reports_tokens_and_batch_size_witness:
  "small_batch ''input_ids'' = Some (Arr [Arr [Scalar 101, Scalar 102]])
   \<and> small_batch ''attention_mask'' = Some (Arr [Arr [Scalar 1, Scalar 1]])
   \<and> fits_int64 (entries_sum (Arr [Arr [Scalar 1, Scalar 1]]))
   \<and> (\<exists>res st'. infer sample_env mock_engine 0 1 metrics0 small_batch = (Inr res, st')
         \<and> batch_size res = 1 \<and> tokens_processed res = 2)
   \<and> (\<exists>resp st'.
         predict_inputs sample_env mock_engine
           \<lparr>text = None, texts = None, inputs = Some small_inputs, include_embeddings = False\<rparr>
           = Inr small_batch
         \<and> predict sample_env (Some mock_engine) 0 1 metrics0
           \<lparr>text = None, texts = None, inputs = Some small_inputs, include_embeddings = False\<rparr>
           = (Inr resp, st')
         \<and> resp_batch_size resp = 1 \<and> resp_tokens_processed resp = 2)"
proof -
  let ?rq = "\<lparr>text = None, texts = None, inputs = Some small_inputs, include_embeddings = False\<rparr>"
  have fits: "fits_int64 (entries_sum (Arr [Arr [Scalar 1, Scalar 1]]))"
    by (simp add: fits_int64_def)
  obtain res st' where i: "infer sample_env mock_engine 0 1 metrics0 small_batch = (Inr res, st')"
    using infer_mock_small [of metrics0]
    by (cases "infer sample_env mock_engine 0 1 metrics0 small_batch") simp
  obtain resp st'' where p: "predict sample_env (Some mock_engine) 0 1 metrics0 ?rq = (Inr resp, st'')"
    using predict_mock_small [of metrics0 None None]
    by (cases "predict sample_env (Some mock_engine) 0 1 metrics0 ?rq") simp
  have n: "predict_inputs sample_env mock_engine ?rq = Inr small_batch"
    by (rule predict_inputs_small)
  note c = infer_reports_tokens_and_batch_size [OF small_batch_keys(1) small_batch_keys(2) fits,
      of sample_env mock_engine 0 1 metrics0 res st' ?rq resp st'']
  from c i have "batch_size res = 1 \<and> tokens_processed res = 2" by simp
  moreover from c n p have "resp_batch_size resp = 1 \<and> resp_tokens_processed resp = 2" by simp
  ultimately show ?thesis
    using i p n fits small_batch_keys by blast
qed

subsection \<open>Exceptions in \<open>infer\<close>\<close>



subsection \<open>When the token counter and the batch-size histogram are written\<close>




subsection \<open>Output shapes of the mock and the loaded branch\<close>



lemma run_session_mock_general:
  assumes "session eng = None" and "0 \<le> MAX_SEQUENCE_LENGTH ev"
  shows "run_session ev eng inps bs =
     Inr (randn_at (randn_source ev 0) [] [bs, nat (MAX_SEQUENCE_LENGTH ev), 768],
          Some (randn_at (randn_source ev 1) [] [bs, 768]))"
  using assms by (simp add: run_session_def randn_def del: randn_at.simps)

text \<open>The mock branch returns whenever the batch has its two tensors and a sum that can be counted.\<close>

lemma infer_mock_returns:
  assumes "session eng = None" and "0 \<le> MAX_SEQUENCE_LENGTH ev"
    and "inps ''input_ids'' = Some ids" and "len ids = Inr bs"
    and "inps ''attention_mask'' = Some amask" and "0 \<le> np_sum amask"
  shows "fst (infer ev eng t0 t1 st inps) =
     Inr \<lparr>last_hidden_state = randn_at (randn_source ev 0) [] [bs, nat (MAX_SEQUENCE_LENGTH ev), 768],
          pooler_output = Some (randn_at (randn_source ev 1) [] [bs, 768]),
          latency_ms = (t1 - t0) * 1000, batch_size = int bs, tokens_processed = np_sum amask\<rparr>"
  using assms
  by (simp add: infer_eq infer_try_def getitem_def run_session_mock_general
      tokens_processed_inc_def Let_def del: randn_at.simps)

text \<open>The loaded branch returns whenever the session returns at least one output tensor.\<close>

lemma infer_loaded_returns:
  assumes "session eng = Some sess"
    and "inps ''input_ids'' = Some ids" and "len ids = Inr bs"
    and "inps ''attention_mask'' = Some amask" and "0 \<le> np_sum amask"
    and "inps ''token_type_ids'' = Some tts"
    and "sess ids amask tts = Inr (o0 # rest)"
  shows "fst (infer ev eng t0 t1 st inps) =
     Inr \<lparr>last_hidden_state = o0, pooler_output = (case rest of [] \<Rightarrow> None | o1 # others \<Rightarrow> Some o1),
          latency_ms = (t1 - t0) * 1000, batch_size = int bs, tokens_processed = np_sum amask\<rparr>"
  using assms
  by (cases rest)
     (simp_all add: infer_eq infer_try_def getitem_def run_session_def
       tokens_processed_inc_def Let_def)




subsection \<open>Which input shape \<open>predict\<close> takes\<close>

lemma tokenize_mock:
  "tokenize mock_engine txts n = Inr
     [''input_ids'' \<mapsto> Arr (map (\<lambda>t. sample_row 100 (length t + 2) (nat n)) txts),
      ''attention_mask'' \<mapsto> Arr (map (\<lambda>t. sample_row 1 (length t + 2) (nat n)) txts),
      ''token_type_ids'' \<mapsto> Arr (map (\<lambda>t. sample_row 0 (length t + 2) (nat n)) txts)]"
  by (simp add: tokenize_def mock_engine_def sample_tokenizer_def)

text \<open>
  The claim C5 fails on a request with \<open>inputs\<close> present but empty and a \<open>text\<close>: the
  \<open>inputs\<close> field is not \<open>None\<close>, yet the batch is the tokenized \<open>text\<close>, and without the
  \<open>text\<close> the same request is refused, so the \<open>text\<close> was not ignored.
\<close>

theorem empty_inputs_do_not_take_precedence_counterexample:
  "inputs \<lparr>text = Some ''hello'', texts = None, inputs = Some [], include_embeddings = False\<rparr> \<noteq> None
   \<and> predict_inputs sample_env mock_engine
        \<lparr>text = Some ''hello'', texts = None, inputs = Some [], include_embeddings = False\<rparr>
       = tokenize mock_engine [''hello''] 512
   \<and> \<not> isl (tokenize mock_engine [''hello''] 512)
   \<and> predict_inputs sample_env mock_engine
        \<lparr>text = None, texts = None, inputs = Some [], include_embeddings = False\<rparr>
       = Inl (HTTPException 400 ''No input provided'')"
  by (simp add: predict_inputs_def tokenize_mock sample_env_def)

text \<open>
  C5, amended. Among the shapes of a request that are present and not empty, \<open>inputs\<close>
  comes before \<open>texts\<close>, which comes before \<open>text\<close>: with non-empty \<open>inputs\<close> the batch is
  made of the three converted tensors and does not depend on \<open>texts\<close> and \<open>text\<close>; with
  \<open>inputs\<close> absent or empty and non-empty \<open>texts\<close> the batch is the tokenized \<open>texts\<close> and
  does not depend on \<open>text\<close>; with both absent or empty and a non-empty \<open>text\<close> the batch
  is that one tokenized text.
\<close>

theorem predict_inputs_precedence:
  "(truthy (inputs r) \<longrightarrow>
      predict_inputs ev eng (r\<lparr>texts := ts, text := t\<rparr>) = predict_inputs ev eng r)
   \<and> (inputs r = Some d \<and> d \<noteq> []
      \<and> array_of_key ev d ''input_ids'' = Inr a
      \<and> array_of_key ev d ''attention_mask'' = Inr b
      \<and> array_of_key ev d ''token_type_ids'' = Inr c \<longrightarrow>
      predict_inputs ev eng r
        = Inr [''input_ids'' \<mapsto> a, ''attention_mask'' \<mapsto> b, ''token_type_ids'' \<mapsto> c])
   \<and> (\<not> truthy (inputs r) \<and> texts r = Some xs \<and> xs \<noteq> [] \<longrightarrow>
      predict_inputs ev eng (r\<lparr>text := t\<rparr>) = predict_inputs ev eng r
      \<and> predict_inputs ev eng r = tokenize eng xs (MAX_SEQUENCE_LENGTH ev))
   \<and> (\<not> truthy (inputs r) \<and> \<not> truthy (texts r) \<and> text r = Some x \<and> x \<noteq> [] \<longrightarrow>
      predict_inputs ev eng r = tokenize eng [x] (MAX_SEQUENCE_LENGTH ev))"
  by (simp add: predict_inputs_def cong: sum.case_cong)

theorem predict_inputs_precedence_witness:
  "truthy (inputs \<lparr>text = Some ''hello'', texts = Some [''a'', ''b''], inputs = Some small_inputs,
                  include_embeddings = False\<rparr>)
   \<and> predict_inputs sample_env mock_engine
        \<lparr>text = Some ''hello'', texts = Some [''a'', ''b''], inputs = Some small_inputs,
         include_embeddings = False\<rparr> = Inr small_batch
   \<and> predict_inputs sample_env mock_engine
        \<lparr>text = None, texts = None, inputs = Some small_inputs, include_embeddings = False\<rparr>
       = Inr small_batch
   \<and> predict_inputs sample_env mock_engine
        \<lparr>text = Some ''hello'', texts = Some [''a'', ''b''], inputs = Some [],
         include_embeddings = False\<rparr> = tokenize mock_engine [''a'', ''b''] 512
   \<and> predict_inputs sample_env mock_engine
        \<lparr>text = Some ''hello'', texts = Some [], inputs = None,
         include_embeddings = False\<rparr> = tokenize mock_engine [''hello''] 512"
proof -
  let ?r = "\<lparr>text = Some ''hello'', texts = Some [''a'', ''b''], inputs = Some small_inputs,
         include_embeddings = False\<rparr>"
  have conv: "array_of_key sample_env small_inputs ''input_ids'' = Inr (Arr [Arr [Scalar 101, Scalar 102]])"
    "array_of_key sample_env small_inputs ''attention_mask'' = Inr (Arr [Arr [Scalar 1, Scalar 1]])"
    "array_of_key sample_env small_inputs ''token_type_ids'' = Inr (Arr [Arr [Scalar 0, Scalar 0]])"
    by (simp_all add: array_of_key_def getitem_def small_inputs_def sample_env_def)
  have ne: "small_inputs \<noteq> []" by (simp add: small_inputs_def)
  have mx: "MAX_SEQUENCE_LENGTH sample_env = 512" by (simp add: sample_env_def)
  note p1 = predict_inputs_precedence [of ?r sample_env mock_engine None None small_inputs
      "Arr [Arr [Scalar 101, Scalar 102]]" "Arr [Arr [Scalar 1, Scalar 1]]"
      "Arr [Arr [Scalar 0, Scalar 0]]"]
  note p2 = predict_inputs_precedence [of
      "\<lparr>text = Some ''hello'', texts = Some [''a'', ''b''], inputs = Some [], include_embeddings = False\<rparr>"
      sample_env mock_engine _ _ _ _ _ _ "[''a'', ''b'']"]
  note p3 = predict_inputs_precedence [of
      "\<lparr>text = Some ''hello'', texts = Some [], inputs = None, include_embeddings = False\<rparr>"
      sample_env mock_engine _ _ _ _ _ _ _ "''hello''"]
  from p1 conv ne have a: "predict_inputs sample_env mock_engine ?r = Inr small_batch"
    "predict_inputs sample_env mock_engine
        \<lparr>text = None, texts = None, inputs = Some small_inputs, include_embeddings = False\<rparr>
       = Inr small_batch"
    by (simp_all add: small_batch_def)
  from p2 mx have b: "predict_inputs sample_env mock_engine
        \<lparr>text = Some ''hello'', texts = Some [''a'', ''b''], inputs = Some [],
         include_embeddings = False\<rparr> = tokenize mock_engine [''a'', ''b''] 512"
    by simp
  from p3 mx have c: "predict_inputs sample_env mock_engine
        \<lparr>text = Some ''hello'', texts = Some [], inputs = None,
         include_embeddings = False\<rparr> = tokenize mock_engine [''hello''] 512"
    by simp
  from a b c ne show ?thesis by simp
qed

text \<open>
  C9. A request with \<open>texts\<close> the empty list and neither \<open>inputs\<close> nor \<open>text\<close> is refused
  by the loaded application with \<open>HTTPException(400, "No input provided")\<close>; no batch
  reaches \<open>infer\<close> and the metrics are untouched.
\<close>

theorem predict_rejects_empty_texts:
  "predict ev (Some eng) t0 t1 st
     \<lparr>text = None, texts = Some [], inputs = None, include_embeddings = ie\<rparr>
     = (Inl (HTTPException 400 ''No input provided''), st)
   \<and> status_code (HTTPException 400 ''No input provided'') = 400"
  by (simp add: predict_def predict_inputs_def)

lemma entries_sum_scalars: "entries_sum (Arr (map Scalar xs)) = sum_list xs"
  by (induction xs) simp_all

lemma entries_sum_sample_row: "entries_sum (sample_row v k n) = int (min k n) * v"
  unfolding sample_row_def entries_sum_scalars by (simp add: sum_list_replicate)

text \<open>The mock engine on the batch of the sample tokenizer.\<close>

lemma infer_mock_tokenized:
  assumes "np_sum (Arr (map (\<lambda>t. sample_row 1 (length t + 2) 512) txts)) = n" and "0 \<le> n"
  shows "fst (infer sample_env mock_engine 0 1 st
            [''input_ids'' \<mapsto> Arr (map (\<lambda>t. sample_row 100 (length t + 2) 512) txts),
             ''attention_mask'' \<mapsto> Arr (map (\<lambda>t. sample_row 1 (length t + 2) 512) txts),
             ''token_type_ids'' \<mapsto> Arr (map (\<lambda>t. sample_row 0 (length t + 2) 512) txts)])
     = Inr \<lparr>last_hidden_state = randn_at (\<lambda>p. 0) [] [length txts, 512, 768],
            pooler_output = Some (randn_at (\<lambda>p. 0) [] [length txts, 768]),
            latency_ms = 1000, batch_size = int (length txts), tokens_processed = n\<rparr>"
proof -
  let ?b = "[''input_ids'' \<mapsto> Arr (map (\<lambda>t. sample_row 100 (length t + 2) 512) txts),
             ''attention_mask'' \<mapsto> Arr (map (\<lambda>t. sample_row 1 (length t + 2) 512) txts),
             ''token_type_ids'' \<mapsto> Arr (map (\<lambda>t. sample_row 0 (length t + 2) 512) txts)]"
  have "fst (infer sample_env mock_engine 0 1 st ?b) =
     Inr \<lparr>last_hidden_state = randn_at (randn_source sample_env 0) []
              [length txts, nat (MAX_SEQUENCE_LENGTH sample_env), 768],
          pooler_output = Some (randn_at (randn_source sample_env 1) [] [length txts, 768]),
          latency_ms = (1 - 0) * 1000, batch_size = int (length txts),
          tokens_processed = np_sum (Arr (map (\<lambda>t. sample_row 1 (length t + 2) 512) txts))\<rparr>"
  proof (rule infer_mock_returns)
    show "session mock_engine = None" by (simp add: mock_engine_def init_engine_def)
    show "0 \<le> MAX_SEQUENCE_LENGTH sample_env" by (simp add: sample_env_def)
    show "?b ''input_ids'' = Some (Arr (map (\<lambda>t. sample_row 100 (length t + 2) 512) txts))"
      by simp
    show "len (Arr (map (\<lambda>t. sample_row 100 (length t + 2) 512) txts)) = Inr (length txts)"
      by simp
    show "?b ''attention_mask'' = Some (Arr (map (\<lambda>t. sample_row 1 (length t + 2) 512) txts))"
      by simp
    show "0 \<le> np_sum (Arr (map (\<lambda>t. sample_row 1 (length t + 2) 512) txts))"
      using assms by simp
  qed
  then show ?thesis
    using assms(1) by (simp add: sample_env_def del: randn_at.simps)
qed

text \<open>
  C10. \<open>predict\<close> tests the truth value of each shape. It does the same on a request
  whose \<open>inputs\<close> is the empty dictionary as on the request without \<open>inputs\<close>, and
  likewise for \<open>texts\<close> the empty list and \<open>text\<close> the empty string. Selection falls
  through to the next shape: with \<open>inputs\<close> absent or empty and a non-empty \<open>texts\<close> the
  batch is the tokenized \<open>texts\<close>; with \<open>inputs\<close> and \<open>texts\<close> absent or empty and a
  non-empty \<open>text\<close> it is that one tokenized text; and the batch selected is the one
  \<open>predict\<close> passes to \<open>infer\<close> and answers from. When each of the three is absent or
  empty, the request is refused with status 400.
\<close>

theorem predict_selects_by_truth_value:
  "predict ev eo t0 t1 st (r\<lparr>inputs := Some []\<rparr>) = predict ev eo t0 t1 st (r\<lparr>inputs := None\<rparr>)
   \<and> predict ev eo t0 t1 st (r\<lparr>texts := Some []\<rparr>) = predict ev eo t0 t1 st (r\<lparr>texts := None\<rparr>)
   \<and> predict ev eo t0 t1 st (r\<lparr>text := Some ''''\<rparr>) = predict ev eo t0 t1 st (r\<lparr>text := None\<rparr>)
   \<and> ((inputs r = None \<or> inputs r = Some []) \<and> texts r = Some xs \<and> xs \<noteq> [] \<longrightarrow>
      predict_inputs ev eng r = tokenize eng xs (MAX_SEQUENCE_LENGTH ev))
   \<and> ((inputs r = None \<or> inputs r = Some []) \<and> (texts r = None \<or> texts r = Some [])
        \<and> text r = Some x \<and> x \<noteq> [] \<longrightarrow>
      predict_inputs ev eng r = tokenize eng [x] (MAX_SEQUENCE_LENGTH ev))
   \<and> (predict_inputs ev eng r = Inr inps \<longrightarrow>
      predict ev (Some eng) t0 t1 st r =
        (case infer ev eng t0 t1 st inps of
           (Inl e, st1) \<Rightarrow> (Inl e, st1)
         | (Inr result, st1) \<Rightarrow> (make_response r result, st1)))
   \<and> ((inputs r = None \<or> inputs r = Some []) \<and> (texts r = None \<or> texts r = Some [])
        \<and> (text r = None \<or> text r = Some '''') \<longrightarrow>
      predict ev (Some eng) t0 t1 st r = (Inl (HTTPException 400 ''No input provided''), st))"
proof -
  have n: "predict_inputs ev e (r\<lparr>inputs := Some []\<rparr>) = predict_inputs ev e (r\<lparr>inputs := None\<rparr>)"
    "predict_inputs ev e (r\<lparr>texts := Some []\<rparr>) = predict_inputs ev e (r\<lparr>texts := None\<rparr>)"
    "predict_inputs ev e (r\<lparr>text := Some ''''\<rparr>) = predict_inputs ev e (r\<lparr>text := None\<rparr>)" for e
    by (simp_all add: predict_inputs_def cong: sum.case_cong)
  have m: "make_response (r\<lparr>inputs := x\<rparr>) res = make_response (r\<lparr>inputs := x'\<rparr>) res"
    "make_response (r\<lparr>texts := y\<rparr>) res = make_response (r\<lparr>texts := y'\<rparr>) res"
    "make_response (r\<lparr>text := z\<rparr>) res = make_response (r\<lparr>text := z'\<rparr>) res" for x x' y y' z z' res
    by (simp_all add: make_response_def)
  have a: "predict ev eo t0 t1 st (r\<lparr>inputs := Some []\<rparr>) = predict ev eo t0 t1 st (r\<lparr>inputs := None\<rparr>)"
    unfolding predict_def n using m(1) [of "Some []" _ None]
    by (auto split: option.splits sum.splits prod.splits)
  have b: "predict ev eo t0 t1 st (r\<lparr>texts := Some []\<rparr>) = predict ev eo t0 t1 st (r\<lparr>texts := None\<rparr>)"
    unfolding predict_def n using m(2) [of "Some []" _ None]
    by (auto split: option.splits sum.splits prod.splits)
  have c: "predict ev eo t0 t1 st (r\<lparr>text := Some ''''\<rparr>) = predict ev eo t0 t1 st (r\<lparr>text := None\<rparr>)"
    unfolding predict_def n using m(3) [of "Some ''''" _ None]
    by (auto split: option.splits sum.splits prod.splits)
  have d: "predict ev (Some eng) t0 t1 st r = (Inl (HTTPException 400 ''No input provided''), st)"
    if "(inputs r = None \<or> inputs r = Some []) \<and> (texts r = None \<or> texts r = Some [])
        \<and> (text r = None \<or> text r = Some '''')"
    using that by (auto simp: predict_def predict_inputs_def)
  have f: "predict_inputs ev eng r = tokenize eng xs (MAX_SEQUENCE_LENGTH ev)"
    if "(inputs r = None \<or> inputs r = Some []) \<and> texts r = Some xs \<and> xs \<noteq> []"
    using that by (auto simp: predict_inputs_def)
  have g: "predict_inputs ev eng r = tokenize eng [x] (MAX_SEQUENCE_LENGTH ev)"
    if "(inputs r = None \<or> inputs r = Some []) \<and> (texts r = None \<or> texts r = Some [])
        \<and> text r = Some x \<and> x \<noteq> []"
    using that by (auto simp: predict_inputs_def)
  have h: "predict ev (Some eng) t0 t1 st r =
        (case infer ev eng t0 t1 st inps of
           (Inl e, st1) \<Rightarrow> (Inl e, st1)
         | (Inr result, st1) \<Rightarrow> (make_response r result, st1))"
    if "predict_inputs ev eng r = Inr inps"
    using that by (simp add: predict_def)
  from a b c d f g h show ?thesis by blast
qed

theorem predict_selects_by_truth_value_witness:
  "map_sum id (\<lambda>p. (resp_batch_size p, resp_tokens_processed p))
      (fst (predict sample_env (Some mock_engine) 0 1 metrics0
        \<lparr>text = Some ''hello'', texts = Some [''a'', ''b''], inputs = Some [],
         include_embeddings = False\<rparr>)) = Inr (2, 6)
   \<and> map_sum id (\<lambda>p. (resp_batch_size p, resp_tokens_processed p))
      (fst (predict sample_env (Some mock_engine) 0 1 metrics0
        \<lparr>text = Some ''hello'', texts = Some [], inputs = Some [],
         include_embeddings = False\<rparr>)) = Inr (1, 7)
   \<and> predict sample_env (Some mock_engine) 0 1 metrics0
      \<lparr>text = Some ''hello'', texts = None, inputs = Some [], include_embeddings = False\<rparr>
     = predict sample_env (Some mock_engine) 0 1 metrics0
      \<lparr>text = Some ''hello'', texts = None, inputs = None, include_embeddings = False\<rparr>
   \<and> predict sample_env (Some mock_engine) 0 1 metrics0
      \<lparr>text = Some '''', texts = Some [], inputs = Some [], include_embeddings = False\<rparr>
     = (Inl (HTTPException 400 ''No input provided''), metrics0)"
proof -
  let ?r = "\<lparr>text = Some ''hello'', texts = None, inputs = None, include_embeddings = False\<rparr>"
  let ?q = "\<lparr>text = Some '''', texts = Some [], inputs = Some [], include_embeddings = False\<rparr>"
  let ?u = "\<lparr>text = Some ''hello'', texts = Some [''a'', ''b''], inputs = Some [],
         include_embeddings = False\<rparr>"
  let ?v = "\<lparr>text = Some ''hello'', texts = Some [], inputs = Some [],
         include_embeddings = False\<rparr>"
  let ?bu = "[''input_ids'' \<mapsto> Arr (map (\<lambda>t. sample_row 100 (length t + 2) 512) [''a'', ''b'']),
             ''attention_mask'' \<mapsto> Arr (map (\<lambda>t. sample_row 1 (length t + 2) 512) [''a'', ''b'']),
             ''token_type_ids'' \<mapsto> Arr (map (\<lambda>t. sample_row 0 (length t + 2) 512) [''a'', ''b''])]"
  let ?bv = "[''input_ids'' \<mapsto> Arr (map (\<lambda>t. sample_row 100 (length t + 2) 512) [''hello'']),
             ''attention_mask'' \<mapsto> Arr (map (\<lambda>t. sample_row 1 (length t + 2) 512) [''hello'']),
             ''token_type_ids'' \<mapsto> Arr (map (\<lambda>t. sample_row 0 (length t + 2) 512) [''hello''])]"
  have mx: "MAX_SEQUENCE_LENGTH sample_env = 512" by (simp add: sample_env_def)
  have tu: "tokenize mock_engine [''a'', ''b''] 512 = Inr ?bu"
    and tv: "tokenize mock_engine [''hello''] 512 = Inr ?bv"
    by (simp_all add: tokenize_mock)
  have su: "np_sum (Arr (map (\<lambda>t. sample_row 1 (length t + 2) 512) [''a'', ''b''])) = 6"
    and sv: "np_sum (Arr (map (\<lambda>t. sample_row 1 (length t + 2) 512) [''hello''])) = 7"
    by (simp_all add: np_sum_def entries_sum_sample_row int64_def)
  note iu = infer_mock_tokenized [OF su, of metrics0]
  note iv = infer_mock_tokenized [OF sv, of metrics0]
  note thu = predict_selects_by_truth_value [where ev = sample_env and eo = "Some mock_engine"
      and eng = mock_engine and r = ?u and xs = "[''a'', ''b'']" and x = "''hello''"
      and inps = ?bu and ?t0.0 = 0 and ?t1.0 = 1 and st = metrics0]
  note thv = predict_selects_by_truth_value [where ev = sample_env and eo = "Some mock_engine"
      and eng = mock_engine and r = ?v and xs = "[]" and x = "''hello''"
      and inps = ?bv and ?t0.0 = 0 and ?t1.0 = 1 and st = metrics0]
  note thq = predict_selects_by_truth_value [where ev = sample_env and eo = "Some mock_engine"
      and eng = mock_engine and r = ?q and xs = "[]" and x = "[]"
      and inps = ?bv and ?t0.0 = 0 and ?t1.0 = 1 and st = metrics0]
  from thu [THEN conjunct2, THEN conjunct2, THEN conjunct2, THEN conjunct1]
  have "predict_inputs sample_env mock_engine ?u = tokenize mock_engine [''a'', ''b''] 512"
    unfolding mx by simp
  with tu have nu: "predict_inputs sample_env mock_engine ?u = Inr ?bu" by simp
  from thu [THEN conjunct2, THEN conjunct2, THEN conjunct2, THEN conjunct2, THEN conjunct2,
      THEN conjunct1] nu have pu: "predict sample_env (Some mock_engine) 0 1 metrics0 ?u =
        (case infer sample_env mock_engine 0 1 metrics0 ?bu of
           (Inl e, st1) \<Rightarrow> (Inl e, st1)
         | (Inr result, st1) \<Rightarrow> (make_response ?u result, st1))"
    by blast
  from thv [THEN conjunct2, THEN conjunct2, THEN conjunct2, THEN conjunct2, THEN conjunct1]
  have "predict_inputs sample_env mock_engine ?v = tokenize mock_engine [''hello''] 512"
    unfolding mx by simp
  with tv have nv: "predict_inputs sample_env mock_engine ?v = Inr ?bv" by simp
  from thv [THEN conjunct2, THEN conjunct2, THEN conjunct2, THEN conjunct2, THEN conjunct2,
      THEN conjunct1] nv have pv: "predict sample_env (Some mock_engine) 0 1 metrics0 ?v =
        (case infer sample_env mock_engine 0 1 metrics0 ?bv of
           (Inl e, st1) \<Rightarrow> (Inl e, st1)
         | (Inr result, st1) \<Rightarrow> (make_response ?v result, st1))"
    by blast
  have ru: "map_sum id (\<lambda>p. (resp_batch_size p, resp_tokens_processed p))
      (fst (predict sample_env (Some mock_engine) 0 1 metrics0 ?u)) = Inr (2, 6)"
    unfolding pu using iu
    by (cases "infer sample_env mock_engine 0 1 metrics0 ?bu")
       (simp add: make_response_def optional_list_randn_at del: randn_at.simps)
  have rv: "map_sum id (\<lambda>p. (resp_batch_size p, resp_tokens_processed p))
      (fst (predict sample_env (Some mock_engine) 0 1 metrics0 ?v)) = Inr (1, 7)"
    unfolding pv using iv
    by (cases "infer sample_env mock_engine 0 1 metrics0 ?bv")
       (simp add: make_response_def optional_list_randn_at del: randn_at.simps)
  have a: "predict sample_env (Some mock_engine) 0 1 metrics0 (?r\<lparr>inputs := Some []\<rparr>)
      = predict sample_env (Some mock_engine) 0 1 metrics0 (?r\<lparr>inputs := None\<rparr>)"
    using predict_selects_by_truth_value [of sample_env "Some mock_engine" 0 1 metrics0 ?r]
    by (rule conjunct1)
  from thq [THEN conjunct2, THEN conjunct2, THEN conjunct2, THEN conjunct2, THEN conjunct2,
      THEN conjunct2]
  have b: "predict sample_env (Some mock_engine) 0 1 metrics0 ?q
        = (Inl (HTTPException 400 ''No input provided''), metrics0)"
    by simp
  from ru rv a b show ?thesis by simp
qed

subsection \<open>A pre-tokenized request without one of its tensors\<close>

text \<open>
  The claim C7 fails on a request whose \<open>inputs\<close> has no \<open>token_type_ids\<close>: \<open>predict\<close>
  raises the \<open>KeyError\<close> of the dictionary lookup, which is answered with status 500, not
  with a client error.
\<close>

theorem predict_missing_key_is_server_error_counterexample:
  "predict sample_env (Some mock_engine) 0 1 metrics0
      \<lparr>text = None, texts = None,
       inputs = Some [(''input_ids'', JList [JList [JInt 101, JInt 102]]),
                      (''attention_mask'', JList [JList [JInt 1, JInt 1]])],
       include_embeddings = False\<rparr>
     = (Inl (KeyError ''token_type_ids''), metrics0)
   \<and> status_code (KeyError ''token_type_ids'') = 500"
  by (simp add: predict_def predict_inputs_def array_of_key_def getitem_def sample_env_def)

text \<open>
  C7, amended. A request whose non-empty \<open>inputs\<close> lacks one of \<open>input_ids\<close>,
  \<open>attention_mask\<close>, \<open>token_type_ids\<close> fails in \<open>predict\<close> before \<open>infer\<close> is called, so
  the metrics are untouched; the exception is the \<open>KeyError\<close> of the first missing key
  when the tensors before it convert, and a \<open>KeyError\<close> is answered with status 500.
\<close>

theorem predict_missing_tensor_key:
  assumes "inputs r = Some d" and "d \<noteq> []"
    and "map_of d ''input_ids'' = None \<or> map_of d ''attention_mask'' = None
         \<or> map_of d ''token_type_ids'' = None"
  shows "(\<exists>e. predict ev (Some eng) t0 t1 st r = (Inl e, st))
    \<and> (map_of d ''input_ids'' = None \<longrightarrow>
         predict ev (Some eng) t0 t1 st r = (Inl (KeyError ''input_ids''), st))
    \<and> (array_of_key ev d ''input_ids'' = Inr a \<and> map_of d ''attention_mask'' = None \<longrightarrow>
         predict ev (Some eng) t0 t1 st r = (Inl (KeyError ''attention_mask''), st))
    \<and> (array_of_key ev d ''input_ids'' = Inr a \<and> array_of_key ev d ''attention_mask'' = Inr b
         \<and> map_of d ''token_type_ids'' = None \<longrightarrow>
         predict ev (Some eng) t0 t1 st r = (Inl (KeyError ''token_type_ids''), st))
    \<and> status_code (KeyError k) = 500"
proof -
  have sel: "predict_inputs ev eng r =
     (case array_of_key ev d ''input_ids'' of
           Inl e \<Rightarrow> Inl e
         | Inr a \<Rightarrow>
             (case array_of_key ev d ''attention_mask'' of
                Inl e \<Rightarrow> Inl e
              | Inr b \<Rightarrow>
                  (case array_of_key ev d ''token_type_ids'' of
                     Inl e \<Rightarrow> Inl e
                   | Inr c \<Rightarrow>
                       Inr [''input_ids'' \<mapsto> a, ''attention_mask'' \<mapsto> b,
                            ''token_type_ids'' \<mapsto> c])))"
    using assms(1,2) by (simp add: predict_inputs_def cong: sum.case_cong)
  have missing: "array_of_key ev d key = Inl (KeyError key)" if "map_of d key = None" for key
    using that by (simp add: array_of_key_def getitem_def)
  have "\<exists>e. predict_inputs ev eng r = Inl e"
    unfolding sel using assms(3) missing by (auto split: sum.splits)
  then have "\<exists>e. predict ev (Some eng) t0 t1 st r = (Inl e, st)"
    by (auto simp: predict_def)
  moreover have "predict ev (Some eng) t0 t1 st r = (Inl (KeyError ''input_ids''), st)"
    if "map_of d ''input_ids'' = None"
    using that by (simp add: predict_def sel missing)
  moreover have "predict ev (Some eng) t0 t1 st r = (Inl (KeyError ''attention_mask''), st)"
    if "array_of_key ev d ''input_ids'' = Inr a \<and> map_of d ''attention_mask'' = None"
    using that by (simp add: predict_def sel missing)
  moreover have "predict ev (Some eng) t0 t1 st r = (Inl (KeyError ''token_type_ids''), st)"
    if "array_of_key ev d ''input_ids'' = Inr a \<and> array_of_key ev d ''attention_mask'' = Inr b
         \<and> map_of d ''token_type_ids'' = None"
    using that by (simp add: predict_def sel missing)
  ultimately show ?thesis by simp
qed

theorem predict_missing_tensor_key_witness:
  "inputs \<lparr>text = None, texts = None,
       inputs = Some [(''input_ids'', JList [JList [JInt 101, JInt 102]]),
                      (''attention_mask'', JList [JList [JInt 1, JInt 1]])],
       include_embeddings = False\<rparr>
     = Some [(''input_ids'', JList [JList [JInt 101, JInt 102]]),
             (''attention_mask'', JList [JList [JInt 1, JInt 1]])]
   \<and> map_of [(''input_ids'', JList [JList [JInt 101, JInt 102]]),
             (''attention_mask'', JList [JList [JInt 1, JInt 1]])] ''token_type_ids'' = None
   \<and> predict sample_env (Some mock_engine) 0 1 metrics0
      \<lparr>text = None, texts = None,
       inputs = Some [(''input_ids'', JList [JList [JInt 101, JInt 102]]),
                      (''attention_mask'', JList [JList [JInt 1, JInt 1]])],
       include_embeddings = False\<rparr>
     = (Inl (KeyError ''token_type_ids''), metrics0)
   \<and> predict sample_env (Some mock_engine) 0 1 metrics0
      \<lparr>text = None, texts = None,
       inputs = Some [(''attention_mask'', JList [JList [JInt 1, JInt 1]])],
       include_embeddings = False\<rparr>
     = (Inl (KeyError ''input_ids''), metrics0)
   \<and> status_code (KeyError ''token_type_ids'') = 500"
proof -
  let ?d = "[(''input_ids'', JList [JList [JInt 101, JInt 102]]),
             (''attention_mask'', JList [JList [JInt 1, JInt 1]])]"
  let ?r = "\<lparr>text = None, texts = None, inputs = Some ?d, include_embeddings = False\<rparr>"
  let ?d2 = "[(''attention_mask'', JList [JList [JInt 1, JInt 1]])]"
  let ?r2 = "\<lparr>text = None, texts = None, inputs = Some ?d2, include_embeddings = False\<rparr>"
  have conv: "array_of_key sample_env ?d ''input_ids'' = Inr (Arr [Arr [Scalar 101, Scalar 102]])"
    "array_of_key sample_env ?d ''attention_mask'' = Inr (Arr [Arr [Scalar 1, Scalar 1]])"
    by (simp_all add: array_of_key_def getitem_def sample_env_def)
  have "inputs ?r = Some ?d" "?d \<noteq> []"
    "map_of ?d ''input_ids'' = None \<or> map_of ?d ''attention_mask'' = None
         \<or> map_of ?d ''token_type_ids'' = None"
    by simp_all
  from predict_missing_tensor_key [OF this, where ev = sample_env
      and a = "Arr [Arr [Scalar 101, Scalar 102]]" and b = "Arr [Arr [Scalar 1, Scalar 1]]"
      and eng = mock_engine and ?t0.0 = 0 and ?t1.0 = 1 and st = metrics0
      and k = "''token_type_ids''"] conv
  have a: "predict sample_env (Some mock_engine) 0 1 metrics0 ?r = (Inl (KeyError ''token_type_ids''), metrics0)"
    "status_code (KeyError ''token_type_ids'') = 500"
    by simp_all
  have "inputs ?r2 = Some ?d2" "?d2 \<noteq> []"
    "map_of ?d2 ''input_ids'' = None \<or> map_of ?d2 ''attention_mask'' = None
         \<or> map_of ?d2 ''token_type_ids'' = None"
    by simp_all
  from predict_missing_tensor_key [OF this, where ev = sample_env and eng = mock_engine
      and ?t0.0 = 0 and ?t1.0 = 1 and st = metrics0]
  have b: "predict sample_env (Some mock_engine) 0 1 metrics0 ?r2 = (Inl (KeyError ''input_ids''), metrics0)"
    by simp
  from a b show ?thesis by simp
qed

subsection \<open>Loading without a model file\<close>




end
